theory Spec2Isabelle
  imports Complex_Main "HOL-Library.Multiset"
begin

section \<open>PyHail: MESH on PPI sweeps (\<^verbatim>\<open>src/pyhail/mesh_ppi_new.py\<close>)\<close>

text \<open>
  The module has one function, \<^verbatim>\<open>main\<close>.  Its body is embedded block by block, in the
  order of the source, each block under the name of the variable it computes; \<^verbatim>\<open>main\<close>
  at the end chains the blocks.  An exception is a value \<open>Inl e\<close>.
\<close>

subsection \<open>Exceptions\<close>

datatype error = ValueError | Exception | Warning | IndexError | TypeError | UnboundLocalError

definition bind_err :: "error + 'a \<Rightarrow> ('a \<Rightarrow> error + 'b) \<Rightarrow> error + 'b" where
  "bind_err m f = (case m of Inl e \<Rightarrow> Inl e | Inr v \<Rightarrow> f v)"

subsection \<open>Array elements\<close>

text \<open>
  An element of a float array is a real number, an infinity or not-a-number.  Rounding,
  overflow and the sign of zero are not modelled: \<open>Fin\<close> carries the exact real.
\<close>

datatype fl = NaN | NInf | Fin real | PInf

fun fl_neg :: "fl \<Rightarrow> fl" where
  "fl_neg NaN = NaN"
| "fl_neg NInf = PInf"
| "fl_neg PInf = NInf"
| "fl_neg (Fin a) = Fin (- a)"

fun fl_add :: "fl \<Rightarrow> fl \<Rightarrow> fl" where
  "fl_add NaN _ = NaN"
| "fl_add _ NaN = NaN"
| "fl_add (Fin a) (Fin b) = Fin (a + b)"
| "fl_add PInf NInf = NaN"
| "fl_add NInf PInf = NaN"
| "fl_add PInf _ = PInf"
| "fl_add _ PInf = PInf"
| "fl_add NInf _ = NInf"
| "fl_add _ NInf = NInf"

definition fl_sub :: "fl \<Rightarrow> fl \<Rightarrow> fl" where
  "fl_sub a b = fl_add a (fl_neg b)"

text \<open>The sign of a product or quotient with an infinity: \<open>0\<close> gives not-a-number.\<close>

definition signed_inf :: "real \<Rightarrow> fl" where
  "signed_inf s = (if s = 0 then NaN else if 0 < s then PInf else NInf)"

fun fl_mul :: "fl \<Rightarrow> fl \<Rightarrow> fl" where
  "fl_mul NaN _ = NaN"
| "fl_mul _ NaN = NaN"
| "fl_mul (Fin a) (Fin b) = Fin (a * b)"
| "fl_mul (Fin a) PInf = signed_inf a"
| "fl_mul (Fin a) NInf = signed_inf (- a)"
| "fl_mul PInf (Fin b) = signed_inf b"
| "fl_mul NInf (Fin b) = signed_inf (- b)"
| "fl_mul PInf PInf = PInf"
| "fl_mul NInf NInf = PInf"
| "fl_mul PInf NInf = NInf"
| "fl_mul NInf PInf = NInf"

text \<open>
  NumPy divides by zero without raising: \<open>0/0\<close> is not-a-number, \<open>a/0\<close> an infinity
  with the sign of \<open>a\<close>.
\<close>

fun fl_div :: "fl \<Rightarrow> fl \<Rightarrow> fl" where
  "fl_div NaN _ = NaN"
| "fl_div _ NaN = NaN"
| "fl_div (Fin a) (Fin b) = (if b = 0 then signed_inf a else Fin (a / b))"
| "fl_div (Fin a) _ = Fin 0"
| "fl_div PInf (Fin b) = (if 0 \<le> b then PInf else NInf)"
| "fl_div NInf (Fin b) = (if 0 \<le> b then NInf else PInf)"
| "fl_div _ _ = NaN"

text \<open>Comparisons: every comparison with not-a-number is false.\<close>

fun fl_lt :: "fl \<Rightarrow> fl \<Rightarrow> bool" where
  "fl_lt NaN _ = False"
| "fl_lt _ NaN = False"
| "fl_lt (Fin a) (Fin b) = (a < b)"
| "fl_lt NInf NInf = False"
| "fl_lt NInf _ = True"
| "fl_lt PInf _ = False"
| "fl_lt (Fin a) PInf = True"
| "fl_lt (Fin a) NInf = False"

definition fl_gt :: "fl \<Rightarrow> fl \<Rightarrow> bool" where
  "fl_gt a b = fl_lt b a"

definition fl_eq :: "fl \<Rightarrow> fl \<Rightarrow> bool" where
  "fl_eq a b = (a \<noteq> NaN \<and> a = b)"

definition fl_le :: "fl \<Rightarrow> fl \<Rightarrow> bool" where
  "fl_le a b = (fl_lt a b \<or> fl_eq a b)"

definition fl_ge :: "fl \<Rightarrow> fl \<Rightarrow> bool" where
  "fl_ge a b = fl_le b a"

text \<open>\<^verbatim>\<open>np.sqrt\<close>: not-a-number below zero.\<close>

fun fl_sqrt :: "fl \<Rightarrow> fl" where
  "fl_sqrt NaN = NaN"
| "fl_sqrt NInf = NaN"
| "fl_sqrt PInf = PInf"
| "fl_sqrt (Fin a) = (if a < 0 then NaN else Fin (sqrt a))"

text \<open>\<^verbatim>\<open>a ** 2\<close>.\<close>

definition fl_square :: "fl \<Rightarrow> fl" where
  "fl_square a = fl_mul a a"

text \<open>
  \<^verbatim>\<open>a ** p\<close> for a positive exponent \<open>p\<close> that is not an integer (\<open>0.5\<close>, \<open>0.206\<close>,
  \<open>0.212\<close>): not-a-number for a negative finite base, \<open>+inf\<close> for both infinities.
\<close>

fun fl_pow :: "fl \<Rightarrow> real \<Rightarrow> fl" where
  "fl_pow NaN p = NaN"
| "fl_pow NInf p = PInf"
| "fl_pow PInf p = PInf"
| "fl_pow (Fin a) p = (if a < 0 then NaN else Fin (a powr p))"

text \<open>\<^verbatim>\<open>10 ** a\<close>.\<close>

fun fl_exp10 :: "fl \<Rightarrow> fl" where
  "fl_exp10 NaN = NaN"
| "fl_exp10 NInf = Fin 0"
| "fl_exp10 PInf = PInf"
| "fl_exp10 (Fin a) = Fin (10 powr a)"

subsection \<open>Arrays\<close>

text \<open>
  A one-dimensional array is a list; a two-dimensional array is the list of its rows.
  An array with no row has shape \<open>(0, 0)\<close> here.
\<close>

type_synonym arr1 = "fl list"
type_synonym grid = "fl list list"
type_synonym mask = "bool list list"

definition nrows :: "'a list list \<Rightarrow> nat" where
  "nrows g = length g"

definition ncols :: "'a list list \<Rightarrow> nat" where
  "ncols g = (case g of [] \<Rightarrow> 0 | r # _ \<Rightarrow> length r)"


text \<open>An operation on every element, and an operation with a scalar.\<close>

definition np_map :: "('a \<Rightarrow> 'b) \<Rightarrow> 'a list list \<Rightarrow> 'b list list" where
  "np_map f g = map (map f) g"

text \<open>
  NumPy's broadcasting of two two-dimensional operands: along each axis the lengths are
  equal or one of them is 1; anything else raises \<^verbatim>\<open>ValueError\<close>.
\<close>

definition bc_dim :: "nat \<Rightarrow> nat \<Rightarrow> nat option" where
  "bc_dim m n = (if m = n then Some m else if m = 1 then Some n
                 else if n = 1 then Some m else None)"

definition bget :: "'a list list \<Rightarrow> nat \<Rightarrow> nat \<Rightarrow> 'a" where
  "bget g i j = g ! (if nrows g = 1 then 0 else i) ! (if ncols g = 1 then 0 else j)"

text \<open>The array of \<open>R\<close> rows and \<open>C\<close> columns that holds \<open>h i j\<close> at \<open>(i, j)\<close>.\<close>

definition tabulate2 :: "nat \<Rightarrow> nat \<Rightarrow> (nat \<Rightarrow> nat \<Rightarrow> 'a) \<Rightarrow> 'a list list" where
  "tabulate2 R C h = map (\<lambda>i. map (\<lambda>j. h i j) [0..<C]) [0..<R]"

definition np_binop :: "('a \<Rightarrow> 'b \<Rightarrow> 'c) \<Rightarrow> 'a list list \<Rightarrow> 'b list list
    \<Rightarrow> error + 'c list list" where
  "np_binop f a b =
     (case bc_dim (nrows a) (nrows b) of
        None \<Rightarrow> Inl ValueError
      | Some R \<Rightarrow>
         (case bc_dim (ncols a) (ncols b) of
            None \<Rightarrow> Inl ValueError
          | Some C \<Rightarrow> Inr (tabulate2 R C (\<lambda>i j. f (bget a i j) (bget b i j)))))"

text \<open>
  \<^verbatim>\<open>a[cond] = v\<close> with the condition taken on an array \<open>c\<close> of the shape of \<open>a\<close>:
  the elements where it holds become \<open>v\<close>.  Both arrays have one shape wherever the
  source does this, so the rows are paired off.
\<close>

definition np_where_set :: "('c \<Rightarrow> bool) \<Rightarrow> 'c list list \<Rightarrow> 'a \<Rightarrow> 'a list list
    \<Rightarrow> 'a list list" where
  "np_where_set cond c v a =
     map (\<lambda>(cr, ar). map (\<lambda>(ce, ae). if cond ce then v else ae) (zip cr ar)) (zip c a)"

text \<open>\<^verbatim>\<open>xs[i]\<close> on a Python list, for an index that is not negative.\<close>

definition py_get :: "'a list \<Rightarrow> nat \<Rightarrow> error + 'a" where
  "py_get xs i = (if i < length xs then Inr (xs ! i) else Inl IndexError)"

text \<open>\<^verbatim>\<open>[xs[i] for i in idx]\<close>: the first index out of range raises.\<close>

fun py_pick :: "'a list \<Rightarrow> nat list \<Rightarrow> error + 'a list" where
  "py_pick xs [] = Inr []"
| "py_pick xs (i # is) =
     bind_err (py_get xs i) (\<lambda>x. bind_err (py_pick xs is) (\<lambda>r. Inr (x # r)))"

text \<open>
  \<^verbatim>\<open>np.meshgrid(a, b)\<close> of two one-dimensional arrays: two arrays of shape
  \<open>(len b, len a)\<close>, the first repeating \<open>a\<close> in every row, the second holding \<open>b ! i\<close>
  throughout row \<open>i\<close>.
\<close>

definition meshgrid :: "'a list \<Rightarrow> 'a list \<Rightarrow> 'a list list \<times> 'a list list" where
  "meshgrid a b = (map (\<lambda>_. a) b, map (\<lambda>y. map (\<lambda>_. y) a) b)"

subsection \<open>The caller's arrays\<close>

text \<open>
  The reflectivity arrays are objects the caller keeps: \<^verbatim>\<open>reflectivity_dataset\<close> is a
  list of references into a store of arrays, so that writing into an array in place and
  binding a list entry to a new array are told apart.  A new array gets the next free
  address.
\<close>

type_synonym addr = nat
type_synonym heap = "grid list"

definition alloc :: "heap \<Rightarrow> grid \<Rightarrow> addr \<times> heap" where
  "alloc h g = (length h, h @ [g])"

record inputs =
  reflectivity_dataset :: "addr list"
  elevation_dataset :: "real list"
  azimuth_dataset :: "arr1 list"
  range_dataset :: "arr1 list"
  radar_altitude :: real
  levels :: "real list option"
  radar_band :: string
  min_range :: real
  max_range :: real
  mesh_method :: string
  correct_cband_refl :: bool

subsection \<open>Lines 59-87: validation, level pair, sort by fixed angle\<close>

definition Zl :: real where "Zl = 40"
definition Zu :: real where "Zu = 50"

text \<open>\<^verbatim>\<open>np.min\<close> and \<^verbatim>\<open>np.max\<close> of a list: an empty one raises \<^verbatim>\<open>ValueError\<close>.\<close>

definition np_min :: "real list \<Rightarrow> error + real" where
  "np_min xs = (case xs of [] \<Rightarrow> Inl ValueError | x # r \<Rightarrow> Inr (fold min r x))"

definition np_max :: "real list \<Rightarrow> error + real" where
  "np_max xs = (case xs of [] \<Rightarrow> Inl ValueError | x # r \<Rightarrow> Inr (fold max r x))"

text \<open>
  \<^verbatim>\<open>np.argsort\<close>: the indices in ascending order of their elements.  It is NumPy's, not
  this repository's; here equal elements keep their order (an insertion sort, which is
  what NumPy runs on a short array, though its default kind does not promise it).
\<close>

definition argsort :: "real list \<Rightarrow> nat list" where
  "argsort es = sort_key (\<lambda>i. es ! i) [0..<length es]"

text \<open>A list given in another order: entry \<open>j\<close> of the result is entry \<open>p ! j\<close> of \<open>xs\<close>.\<close>

definition reordered :: "'a list \<Rightarrow> nat list \<Rightarrow> 'a list" where
  "reordered xs p = map (\<lambda>i. xs ! i) p"

record sweeps =
  sw_reflectivity :: "addr list"
  sw_elevation :: "real list"
  sw_azimuth :: "arr1 list"
  sw_range :: "arr1 list"

text \<open>Lines 75-80: the four lists rebuilt in the order of \<^verbatim>\<open>sort_idx\<close>.\<close>

definition sort_by_fixed_angle :: "addr list \<Rightarrow> real list \<Rightarrow> arr1 list \<Rightarrow> arr1 list
    \<Rightarrow> error + sweeps" where
  "sort_by_fixed_angle rf elev az rg =
     (let sort_idx = argsort elev in
      bind_err (py_pick rf sort_idx) (\<lambda>r.
      bind_err (py_pick elev sort_idx) (\<lambda>e.
      bind_err (py_pick az sort_idx) (\<lambda>a.
      bind_err (py_pick rg sort_idx) (\<lambda>g.
        Inr \<lparr>sw_reflectivity = r, sw_elevation = e, sw_azimuth = a, sw_range = g\<rparr>)))))"

text \<open>Lines 83-87: both branches raise.\<close>

definition require_sweeps :: "nat \<Rightarrow> error + unit" where
  "require_sweeps n = (if n \<le> 1 then Inl Exception
                       else if n < 10 then Inl Warning else Inr ())"

subsection \<open>Lines 98-152: the loop over the sweeps\<close>

text \<open>
  \<^verbatim>\<open>common.antenna_to_cartesian\<close> is not in the sources: it is the parameter \<open>a2c\<close>
  of everything below, a function of three two-dimensional arrays that returns three
  two-dimensional arrays or raises.
\<close>

type_synonym a2c_fn = "grid \<Rightarrow> grid \<Rightarrow> grid \<Rightarrow> error + (grid \<times> grid \<times> grid)"

record loop_state =
  refl_dataset :: "addr list"
  x_dataset :: "grid list"
  y_dataset :: "grid list"
  z_dataset :: "grid list"
  dz_dataset :: "grid list"
  hail_ke_dataset :: "grid list"
  SHI_elements_dataset :: "grid list"
  valid_dataset :: "mask list"
  hail_refl_correction_description :: string
  dz_var :: "grid option"

text \<open>Lines 100-106.\<close>

definition cartesian :: "a2c_fn \<Rightarrow> arr1 \<Rightarrow> arr1 \<Rightarrow> real
    \<Rightarrow> error + (grid \<times> grid \<times> grid)" where
  "cartesian a2c rg az el =
     (let elevation_array = map (\<lambda>_. fl_add (Fin 0) (Fin el)) rg;
          (range_grid0, azimuth_grid) = meshgrid rg az;
          (range_grid, elevation_grid) = meshgrid rg elevation_array
      in a2c range_grid azimuth_grid elevation_grid)"

text \<open>Line 111: always from entry 0 of \<^verbatim>\<open>x_dataset\<close> and \<^verbatim>\<open>y_dataset\<close>.\<close>

definition ground_range :: "grid list \<Rightarrow> grid list \<Rightarrow> error + grid" where
  "ground_range xs ys =
     bind_err (py_get xs 0) (\<lambda>x0.
     bind_err (py_get ys 0) (\<lambda>y0.
     bind_err (np_binop fl_add (np_map fl_square x0) (np_map fl_square y0)) (\<lambda>s.
       Inr (np_map fl_sqrt s))))"

text \<open>
  Lines 113-115: the product is a new array, and the entry of the (local) list is bound
  to it; the array the entry held before is not written.
\<close>

definition cband_description :: string where
  "cband_description = ''C band hail reflectivity correction applied from Brook et al. 2023 https://arxiv.org/abs/2306.12016''"

definition cband_correction :: "string \<Rightarrow> bool \<Rightarrow> nat \<Rightarrow> addr list \<Rightarrow> string \<Rightarrow> heap
    \<Rightarrow> addr list \<times> string \<times> heap" where
  "cband_correction band correct i rf descr h =
     (if band = ''C'' \<and> correct then
        (let (a, h') = alloc h (np_map (\<lambda>c. fl_sub (fl_mul c (Fin 1.113)) (Fin 3.929)) (h ! (rf ! i)))
         in (rf[i := a], cband_description, h'))
      else (rf, descr, h))"

text \<open>
  Lines 117-122.  \<^verbatim>\<open>z\<close> is the height array of the current sweep, which has two
  dimensions; \<^verbatim>\<open>z[k, :, :]\<close> gives three indices, and NumPy raises \<^verbatim>\<open>IndexError\<close>
  (too many indices for array) whatever \<open>k\<close> is.
\<close>

definition getitem3 :: "grid \<Rightarrow> int \<Rightarrow> error + grid" where
  "getitem3 z k = Inl IndexError"

definition dz_forward :: "grid \<Rightarrow> nat \<Rightarrow> error + grid" where
  "dz_forward z i =
     bind_err (getitem3 z (int i + 1)) (\<lambda>a.
     bind_err (getitem3 z (int i)) (\<lambda>b. np_binop fl_sub a b))"

definition dz_centred :: "grid \<Rightarrow> nat \<Rightarrow> error + grid" where
  "dz_centred z i =
     bind_err (getitem3 z (int i + 1)) (\<lambda>a.
     bind_err (getitem3 z (int i - 1)) (\<lambda>b.
     bind_err (np_binop fl_sub a b) (\<lambda>d. Inr (np_map (\<lambda>c. fl_div c (Fin 2)) d))))"

definition dz_backward :: "grid \<Rightarrow> nat \<Rightarrow> error + grid" where
  "dz_backward z i =
     bind_err (getitem3 z (int i)) (\<lambda>a.
     bind_err (getitem3 z (int i - 1)) (\<lambda>b. np_binop fl_sub a b))"

text \<open>
  The three \<^verbatim>\<open>if\<close>s in turn; \<open>prev\<close> is what \<^verbatim>\<open>dz\<close> held before (nothing in the
  first pass).
\<close>

definition dz_step :: "grid \<Rightarrow> nat \<Rightarrow> nat \<Rightarrow> grid option \<Rightarrow> error + grid" where
  "dz_step z i n_ppi prev =
     bind_err (if i = 0 then bind_err (dz_forward z i) (\<lambda>d. Inr (Some d)) else Inr prev) (\<lambda>d1.
     bind_err (if i \<noteq> 0 \<and> int i \<noteq> int n_ppi - 1
               then bind_err (dz_centred z i) (\<lambda>d. Inr (Some d)) else Inr d1) (\<lambda>d2.
     bind_err (if int i = int n_ppi - 1
               then bind_err (dz_backward z i) (\<lambda>d. Inr (Some d)) else Inr d2) (\<lambda>d3.
       case d3 of None \<Rightarrow> Inl UnboundLocalError | Some d \<Rightarrow> Inr d)))"

text \<open>Lines 125-129.\<close>

definition reflectivity_weights :: "grid \<Rightarrow> grid" where
  "reflectivity_weights Z =
     (let w0 = np_map (\<lambda>c. fl_div (fl_sub c (Fin Zl)) (Fin (Zu - Zl))) Z;
          w1 = np_where_set (\<lambda>c. fl_le c (Fin Zl)) Z (Fin 0) w0;
          w2 = np_where_set (\<lambda>c. fl_ge c (Fin Zu)) Z (Fin 1) w1;
          w3 = np_where_set (\<lambda>c. fl_lt c (Fin 0)) w2 (Fin 0) w2;
          w4 = np_where_set (\<lambda>c. fl_gt c (Fin 1)) w3 (Fin 1) w3
      in w4)"

text \<open>Lines 131-132: written into the array the list entry refers to.\<close>

definition limit_dbz :: "grid \<Rightarrow> grid" where
  "limit_dbz Z =
     (let Z1 = np_where_set (\<lambda>c. fl_gt c (Fin 100)) Z (Fin 100) Z;
          Z2 = np_where_set (\<lambda>c. fl_lt c (Fin (- 100))) Z1 (Fin (- 100)) Z1
      in Z2)"

definition limit_dbz_in_place :: "addr list \<Rightarrow> nat \<Rightarrow> heap \<Rightarrow> heap" where
  "limit_dbz_in_place rf i h = h[rf ! i := limit_dbz (h ! (rf ! i))]"

text \<open>Line 134.\<close>

definition hail_ke :: "grid \<Rightarrow> grid \<Rightarrow> error + grid" where
  "hail_ke Z w =
     np_binop fl_mul (np_map (\<lambda>c. fl_mul (Fin (5 / 10 ^ 6)) (fl_exp10 (fl_mul (Fin 0.084) c))) Z) w"

text \<open>Lines 137-141, on the height array without the radar altitude.\<close>

definition temperature_weights :: "grid \<Rightarrow> real \<Rightarrow> real \<Rightarrow> grid" where
  "temperature_weights z meltlayer neg20layer =
     (let w0 = np_map (\<lambda>c. fl_div (fl_sub c (Fin meltlayer)) (Fin (neg20layer - meltlayer))) z;
          w1 = np_where_set (\<lambda>c. fl_le c (Fin meltlayer)) z (Fin 0) w0;
          w2 = np_where_set (\<lambda>c. fl_ge c (Fin neg20layer)) z (Fin 1) w1;
          w3 = np_where_set (\<lambda>c. fl_lt c (Fin 0)) w2 (Fin 0) w2;
          w4 = np_where_set (\<lambda>c. fl_gt c (Fin 1)) w3 (Fin 1) w3
      in w4)"

text \<open>Line 143.\<close>

definition shi_elements :: "grid \<Rightarrow> grid \<Rightarrow> grid \<Rightarrow> error + grid" where
  "shi_elements Wt ke dz = bind_err (np_binop fl_mul Wt ke) (\<lambda>p. np_binop fl_mul p dz)"

text \<open>Lines 146-151.\<close>

definition valid_mask :: "grid \<Rightarrow> grid \<Rightarrow> grid \<Rightarrow> real \<Rightarrow> real \<Rightarrow> error + mask" where
  "valid_mask Wt ke gr mn mx =
     bind_err (np_binop (\<and>) (np_map (\<lambda>c. fl_gt c (Fin 0)) Wt) (np_map (\<lambda>c. fl_gt c (Fin 0)) ke)) (\<lambda>m1.
     bind_err (np_binop (\<and>) m1 (np_map (\<lambda>c. fl_gt c (Fin (mn * 1000))) gr)) (\<lambda>m2.
       np_binop (\<and>) m2 (np_map (\<lambda>c. fl_lt c (Fin (mx * 1000))) gr)))"

text \<open>
  One pass of the loop for sweep \<open>i\<close>, in the order of the source.  The store is
  returned as it stands when an exception is raised.
\<close>

definition sweep_step :: "a2c_fn \<Rightarrow> inputs \<Rightarrow> sweeps \<Rightarrow> real \<Rightarrow> real \<Rightarrow> nat
    \<Rightarrow> loop_state \<Rightarrow> heap \<Rightarrow> nat \<Rightarrow> (error + loop_state) \<times> heap" where
  "sweep_step a2c inp sw meltlayer neg20layer n_ppi st h i =
     (case bind_err (py_get (sw_range sw) i) (\<lambda>rg.
           bind_err (py_get (sw_azimuth sw) i) (\<lambda>az.
           bind_err (py_get (sw_elevation sw) i) (\<lambda>el. cartesian a2c rg az el))) of
        Inl e \<Rightarrow> (Inl e, h)
      | Inr (x, y, z) \<Rightarrow>
         (let xs = x_dataset st @ [x];
              ys = y_dataset st @ [y];
              zs = z_dataset st @ [np_map (\<lambda>c. fl_add c (Fin (radar_altitude inp))) z]
          in case ground_range xs ys of
               Inl e \<Rightarrow> (Inl e, h)
             | Inr gr \<Rightarrow>
                (let (rf, descr, h1) =
                       cband_correction (radar_band inp) (correct_cband_refl inp) i
                         (refl_dataset st) (hail_refl_correction_description st) h
                 in case dz_step z i n_ppi (dz_var st) of
                      Inl e \<Rightarrow> (Inl e, h1)
                    | Inr dz \<Rightarrow>
                       (let w = reflectivity_weights (h1 ! (rf ! i));
                            h2 = limit_dbz_in_place rf i h1;
                            Wt = temperature_weights z meltlayer neg20layer
                        in case bind_err (hail_ke (h2 ! (rf ! i)) w) (\<lambda>ke.
                                bind_err (shi_elements Wt ke dz) (\<lambda>se.
                                bind_err (valid_mask Wt ke gr (min_range inp) (max_range inp)) (\<lambda>v.
                                  Inr (ke, se, v)))) of
                             Inl e \<Rightarrow> (Inl e, h2)
                           | Inr (ke, se, v) \<Rightarrow>
                              (Inr \<lparr>refl_dataset = rf, x_dataset = xs, y_dataset = ys,
                                    z_dataset = zs, dz_dataset = dz_dataset st @ [dz],
                                    hail_ke_dataset = hail_ke_dataset st @ [ke],
                                    SHI_elements_dataset = SHI_elements_dataset st @ [se],
                                    valid_dataset = valid_dataset st @ [v],
                                    hail_refl_correction_description = descr,
                                    dz_var = Some dz\<rparr>, h2)))))"

fun sweep_loop :: "a2c_fn \<Rightarrow> inputs \<Rightarrow> sweeps \<Rightarrow> real \<Rightarrow> real \<Rightarrow> nat
    \<Rightarrow> nat list \<Rightarrow> loop_state \<Rightarrow> heap \<Rightarrow> (error + loop_state) \<times> heap" where
  "sweep_loop a2c inp sw meltlayer neg20layer n_ppi [] st h = (Inr st, h)"
| "sweep_loop a2c inp sw meltlayer neg20layer n_ppi (i # is) st h =
     (case sweep_step a2c inp sw meltlayer neg20layer n_ppi st h i of
        (Inl e, h') \<Rightarrow> (Inl e, h')
      | (Inr st', h') \<Rightarrow> sweep_loop a2c inp sw meltlayer neg20layer n_ppi is st' h')"

definition init_state :: "addr list \<Rightarrow> loop_state" where
  "init_state rf =
     \<lparr>refl_dataset = rf, x_dataset = [], y_dataset = [], z_dataset = [], dz_dataset = [],
      hail_ke_dataset = [], SHI_elements_dataset = [], valid_dataset = [],
      hail_refl_correction_description = [], dz_var = None\<rparr>"

subsection \<open>Lines 154-184: SHI on the lowest sweep\<close>

text \<open>
  Line 159 is \<^verbatim>\<open>for az_idx, az_value in range(azimuth_dataset[0])\<close>.  The argument of
  \<^verbatim>\<open>range\<close> is the azimuth array of the lowest sweep, a one-dimensional array, and
  Python raises \<^verbatim>\<open>TypeError\<close>: \<^verbatim>\<open>range\<close> takes an integer (of arrays, NumPy lets
  only one of no dimension and integer type stand for one).  Were there a range, each
  of its items would be an integer, which does not unpack into two names:
  \<^verbatim>\<open>TypeError\<close> again at the first item.  So the body of the loop, lines 160-184,
  never runs; line 184 there stores \<^verbatim>\<open>0.1 * shi\<close>, the grid itself, where the sum
  \<^verbatim>\<open>shi_value\<close> was meant.
\<close>

definition py_range_ndarray :: "arr1 \<Rightarrow> error + nat list" where
  "py_range_ndarray a = Inl TypeError"

definition column_integrate :: "arr1 list \<Rightarrow> arr1 list \<Rightarrow> error + grid" where
  "column_integrate az rg =
     bind_err (py_get az 0) (\<lambda>a0.
     bind_err (py_get rg 0) (\<lambda>r0.
       (let shi = map (\<lambda>_. map (\<lambda>_. NaN) r0) a0 in
        bind_err (py_range_ndarray a0) (\<lambda>ks.
          case ks of [] \<Rightarrow> Inr shi | k # _ \<Rightarrow> Inl TypeError))))"

subsection \<open>Lines 186-218: MESH and POSH\<close>

definition witt_description :: string where
  "witt_description = ''Maximum Estimated Size of Hail retreival developed by Witt et al. 1998 doi:10.1175/1520-0434(1998)013<0286:AEHDAF>2.0.CO;2 ''"

definition mh_description :: string where
  "mh_description = ''Maximum Estimated Size of Hail retreival originally developed by Witt et al. 1998 doi:10.1175/1520-0434(1998)013<0286:AEHDAF>2.0.CO;2 and recalibrated by Murillo and Homeyer (2021) doi:10.1175/JAMC-D-20-0271.1 ''"

definition mesh_stage :: "string \<Rightarrow> grid \<Rightarrow> error + (grid \<times> string \<times> string)" where
  "mesh_stage method shi =
     (if method = ''witt1998'' then
        Inr (np_map (\<lambda>s. fl_mul (Fin 2.54) (fl_pow s 0.5)) shi, witt_description,
             ''75th percentile fit using 147 hail reports; only valid in the first sweep'')
      else if method = ''mh2019_75'' then
        Inr (np_map (\<lambda>s. fl_mul (Fin 15.096) (fl_pow s 0.206)) shi, mh_description,
             ''75th percentile fit using 5897 hail reports; only valid in the first sweep'')
      else if method = ''mh2019_95'' then
        Inr (np_map (\<lambda>s. fl_mul (Fin 22.157) (fl_pow s 0.212)) shi, mh_description,
             ''95th percentile fit using 5897 hail reports; only valid in the first sweep'')
      else Inl ValueError)"

text \<open>Line 212.\<close>

definition warning_threshold :: "real \<Rightarrow> real" where
  "warning_threshold meltlayer = 57.5 * (meltlayer / 1000) - 121"

text \<open>
  \<^verbatim>\<open>common.safe_log\<close> is not in the sources: it is the parameter \<open>safe_log\<close>, a
  function from arrays to arrays that does not raise (the specification's contract).
  The parameter stands for the real component of what the collaborator returns, so
  \<^verbatim>\<open>np.real\<close> keeps the array as it is.
\<close>

definition np_real :: "grid \<Rightarrow> grid" where
  "np_real g = g"

definition posh_stage :: "(grid \<Rightarrow> grid) \<Rightarrow> real \<Rightarrow> grid \<Rightarrow> grid" where
  "posh_stage safe_log meltlayer shi =
     (let WT = warning_threshold meltlayer;
          posh0 = np_map (\<lambda>c. fl_add (fl_mul (Fin 29) c) (Fin 50))
                    (safe_log (np_map (\<lambda>s. fl_div s (Fin WT)) shi));
          posh1 = np_real posh0;
          posh2 = np_where_set (\<lambda>c. fl_lt c (Fin 0)) posh1 (Fin 0) posh1;
          posh3 = np_where_set (\<lambda>c. fl_gt c (Fin 100)) posh2 (Fin 100) posh2
      in posh3)"


subsection \<open>Lines 221-259: the four dictionaries\<close>

record 'd field_dict =
  data :: 'd
  units :: string
  long_name :: string
  description :: string
  comments :: "string option"

record outputs =
  ke_dict :: "grid list field_dict"
  shi_dict :: "grid field_dict"
  mesh_dict :: "grid field_dict"
  posh_dict :: "grid field_dict"

definition witt_shi_note :: string where
  "witt_shi_note = ''doi:10.1175/1520-0434(1998)013<0286:AEHDAF>2.0.CO;2 ''"

definition package :: "string \<Rightarrow> string \<Rightarrow> grid list \<Rightarrow> grid \<Rightarrow> grid \<times> string \<times> string
    \<Rightarrow> grid \<Rightarrow> outputs" where
  "package method corr ke shi m posh =
     (case m of (mesh, mesh_description, mesh_comment) \<Rightarrow>
       \<lparr>ke_dict = \<lparr>data = ke, units = ''Jm-2s-1'', long_name = ''Hail Kinetic Energy'',
           description = ''Hail Kinetic Energy developed by Witt et al. 1998 '' @ witt_shi_note @ corr,
           comments = None\<rparr>,
        shi_dict = \<lparr>data = shi, units = ''Jm-1s-1'', long_name = ''Severe Hail Index'',
           description = ''Severe Hail Index developed by Witt et al. (1998) '' @ witt_shi_note @ corr,
           comments = Some ''only valid in the first sweep''\<rparr>,
        mesh_dict = \<lparr>data = mesh, units = ''mm'',
           long_name = ''Maximum Expected Size of Hail using '' @ method,
           description = mesh_description @ corr, comments = Some mesh_comment\<rparr>,
        posh_dict = \<lparr>data = posh, units = ''%'', long_name = ''Probability of Severe Hail'',
           description = ''Probability of Severe Hail developed by Witt et al. (1998) '' @ witt_shi_note @ corr,
           comments = Some ''only valid in the first sweep''\<rparr>\<rparr>)"

subsection \<open>The function\<close>

text \<open>Lines 59-87: what is checked and prepared before the loop.\<close>

definition prepare :: "inputs \<Rightarrow> error + (real \<times> real \<times> sweeps)" where
  "prepare inp =
     (if radar_band inp \<noteq> ''C'' \<and> radar_band inp \<noteq> ''S'' then Inl ValueError
      else case levels inp of
        None \<Rightarrow> Inl ValueError
      | Some lv \<Rightarrow>
          bind_err (np_min lv) (\<lambda>meltlayer.
          bind_err (np_max lv) (\<lambda>neg20layer.
          bind_err (sort_by_fixed_angle (reflectivity_dataset inp) (elevation_dataset inp)
                      (azimuth_dataset inp) (range_dataset inp)) (\<lambda>sw.
          bind_err (require_sweeps (length (sw_elevation sw))) (\<lambda>_.
            Inr (meltlayer, neg20layer, sw))))))"

definition main :: "a2c_fn \<Rightarrow> (grid \<Rightarrow> grid) \<Rightarrow> inputs \<Rightarrow> heap \<Rightarrow> (error + outputs) \<times> heap" where
  "main a2c safe_log inp h =
     (case prepare inp of
        Inl e \<Rightarrow> (Inl e, h)
      | Inr (meltlayer, neg20layer, sw) \<Rightarrow>
         (let n_ppi = length (sw_elevation sw) in
          case sweep_loop a2c inp sw meltlayer neg20layer n_ppi [0..<n_ppi]
                 (init_state (sw_reflectivity sw)) h of
            (Inl e, h') \<Rightarrow> (Inl e, h')
          | (Inr st, h') \<Rightarrow>
             (bind_err (column_integrate (sw_azimuth sw) (sw_range sw)) (\<lambda>shi.
              bind_err (mesh_stage (mesh_method inp) shi) (\<lambda>m.
                Inr (package (mesh_method inp) (hail_refl_correction_description st)
                       (hail_ke_dataset st) shi m (posh_stage safe_log meltlayer shi)))),
              h')))"

subsection \<open>Inputs used below\<close>

text \<open>
  The scenario of the specification: two sweeps at 0.5 and 1.5 degrees, azimuths 0 and
  90, ranges 1000 and 2000, reflectivity 55 throughout, radar at sea level, levels 3000
  and 5000, band S, the default ranges and method.
\<close>

definition sweep55 :: grid where
  "sweep55 = [[Fin 55, Fin 55], [Fin 55, Fin 55]]"

definition two_sweeps :: inputs where
  "two_sweeps =
     \<lparr>reflectivity_dataset = [0, 1], elevation_dataset = [0.5, 1.5],
      azimuth_dataset = [[Fin 0, Fin 90], [Fin 0, Fin 90]],
      range_dataset = [[Fin 1000, Fin 2000], [Fin 1000, Fin 2000]],
      radar_altitude = 0, levels = Some [3000, 5000], radar_band = ''S'',
      min_range = 10, max_range = 150, mesh_method = ''mh2019_75'',
      correct_cband_refl = True\<rparr>"

definition two_sweeps_heap :: heap where
  "two_sweeps_heap = [sweep55, sweep55]"

text \<open>Ten such sweeps, at 0.5, 1.5, ..., 9.5 degrees.\<close>

definition ten_sweeps :: inputs where
  "ten_sweeps =
     \<lparr>reflectivity_dataset = [0..<10],
      elevation_dataset = [0.5, 1.5, 2.5, 3.5, 4.5, 5.5, 6.5, 7.5, 8.5, 9.5],
      azimuth_dataset = replicate 10 [Fin 0, Fin 90],
      range_dataset = replicate 10 [Fin 1000, Fin 2000],
      radar_altitude = 0, levels = Some [3000, 5000], radar_band = ''S'',
      min_range = 10, max_range = 150, mesh_method = ''mh2019_75'',
      correct_cband_refl = True\<rparr>"

definition ten_sweeps_heap :: heap where
  "ten_sweeps_heap = replicate 10 sweep55"


text \<open>Stand-ins for the two collaborators, where an evaluation needs some.\<close>

definition a2c_stub :: a2c_fn where
  "a2c_stub r a e = Inr (r, a, e)"

definition safe_log_stub :: "grid \<Rightarrow> grid" where
  "safe_log_stub g = np_map (\<lambda>_. Fin (- 10)) g"

section \<open>Properties\<close>

lemma bind_err_Inl [simp]: "bind_err (Inl e) f = Inl e"
  by (simp add: bind_err_def)

lemma bind_err_Inr [simp]: "bind_err (Inr v) f = f v"
  by (simp add: bind_err_def)

subsection \<open>Lists and the sort\<close>

lemma py_pick_ok:
  "\<forall>i\<in>set js. i < length xs \<Longrightarrow> py_pick xs js = Inr (map (\<lambda>i. xs ! i) js)"
  by (induction js) (simp_all add: py_get_def)

lemma set_argsort: "set (argsort es) = {0..<length es}"
  by (simp add: argsort_def)

lemma length_argsort: "length (argsort es) = length es"
  by (simp add: argsort_def)

lemma sort_by_fixed_angle_ok:
  assumes "length es \<le> length rf" "length es \<le> length az" "length es \<le> length rg"
  shows "sort_by_fixed_angle rf es az rg =
    Inr \<lparr>sw_reflectivity = map (\<lambda>i. rf ! i) (argsort es),
         sw_elevation = map (\<lambda>i. es ! i) (argsort es),
         sw_azimuth = map (\<lambda>i. az ! i) (argsort es),
         sw_range = map (\<lambda>i. rg ! i) (argsort es)\<rparr>"
  using assms by (simp add: sort_by_fixed_angle_def Let_def py_pick_ok set_argsort)

lemma require_warning: "2 \<le> n \<Longrightarrow> n < 10 \<Longrightarrow> require_sweeps n = Inl Warning"
  by (simp add: require_sweeps_def)

lemma argsort_sorted: "sorted es \<Longrightarrow> argsort es = [0..<length es]"
  unfolding argsort_def by (rule sort_key_id_if_sorted) (simp add: map_nth)

subsection \<open>The sweep count\<close>

text \<open>
  C2.  The claim: a well-formed input with at least 2 and fewer than 10 sweeps does not
  fail; an advisory is emitted and the call returns its output fields.  The code does
  otherwise: line 87 raises \<^verbatim>\<open>Warning\<close>.  For every input with a valid band, a level
  list that is not empty, a sweep for every elevation angle and 2 to 9 angles, \<open>main\<close>
  ends in that exception, with the store untouched.
\<close>

theorem main_few_sweeps_raises:
  assumes "radar_band inp = ''C'' \<or> radar_band inp = ''S''"
    and "levels inp = Some (l # ls)"
    and "length (elevation_dataset inp) \<le> length (reflectivity_dataset inp)"
    and "length (elevation_dataset inp) \<le> length (azimuth_dataset inp)"
    and "length (elevation_dataset inp) \<le> length (range_dataset inp)"
    and "2 \<le> length (elevation_dataset inp)" "length (elevation_dataset inp) < 10"
  shows "main a2c safe_log inp h = (Inl Warning, h)"
  using assms
  by (auto simp: main_def prepare_def np_min_def np_max_def sort_by_fixed_angle_ok
      length_argsort require_warning)

theorem main_few_sweeps_raises_witness:
  "main a2c_stub safe_log_stub two_sweeps two_sweeps_heap = (Inl Warning, two_sweeps_heap)"
  by (rule main_few_sweeps_raises [where l = 3000 and ls = "[5000]"])
     (simp_all add: two_sweeps_def)

subsection \<open>The loop over the sweeps never completes a pass\<close>

lemma dz_step_index_error: "dz_step z i n prev = Inl IndexError"
  by (cases "i = 0") (auto simp: dz_step_def dz_forward_def dz_centred_def dz_backward_def getitem3_def)

lemma sweep_step_raises: "\<exists>e h'. sweep_step a2c inp sw ml nl n st h i = (Inl e, h')"
  by (auto simp: sweep_step_def dz_step_index_error Let_def split: sum.splits prod.splits)

lemma sweep_loop_raises: "\<exists>e h'. sweep_loop a2c inp sw ml nl n (i # is) st h = (Inl e, h')"
  using sweep_step_raises [of a2c inp sw ml nl n st h i] by auto

lemma prepare_ten: "prepare inp = Inr (ml, nl, sw) \<Longrightarrow> 10 \<le> length (sw_elevation sw)"
  by (auto simp: prepare_def require_sweeps_def bind_err_def split: if_splits option.splits sum.splits)

text \<open>
  Whatever the input and the collaborators are, the call ends in an exception: either
  the checks of lines 59-87 raise, or there are at least ten sweeps and the first pass
  of the loop raises.
\<close>

lemma main_raises: "\<exists>e h'. main a2c sl inp h = (Inl e, h')"
proof (cases "prepare inp")
  case (Inl e)
  then show ?thesis by (simp add: main_def)
next
  case (Inr r)
  obtain ml nl sw where r: "r = (ml, nl, sw)" by (cases r) auto
  with Inr have "10 \<le> length (sw_elevation sw)" by (auto dest: prepare_ten)
  then have "[0..<length (sw_elevation sw)] = 0 # [Suc 0..<length (sw_elevation sw)]"
    by (intro upt_conv_Cons) auto
  with sweep_loop_raises [of a2c inp sw ml nl "length (sw_elevation sw)" 0 "[Suc 0..<length (sw_elevation sw)]"
      "init_state (sw_reflectivity sw)" h]
  show ?thesis using Inr r by (auto simp: main_def Let_def)
qed

lemma sweep_step_index_error:
  assumes "py_get (sw_range sw) i = Inr rg" "py_get (sw_azimuth sw) i = Inr az"
    "py_get (sw_elevation sw) i = Inr el" "cartesian a2c rg az el = Inr (x, y, z)"
    "ground_range (x_dataset st @ [x]) (y_dataset st @ [y]) = Inr gr"
  shows "sweep_step a2c inp sw ml nl n st h i =
    (Inl IndexError, snd (snd (cband_correction (radar_band inp) (correct_cband_refl inp) i
       (refl_dataset st) (hail_refl_correction_description st) h)))"
  using assms by (simp add: sweep_step_def dz_step_index_error Let_def split: prod.splits)

lemma np_binop_same_shape:
  "nrows a = nrows b \<Longrightarrow> ncols a = ncols b \<Longrightarrow>
   np_binop f a b = Inr (tabulate2 (nrows a) (ncols a) (\<lambda>i j. f (bget a i j) (bget b i j)))"
  by (simp add: np_binop_def bc_dim_def)

lemma nrows_np_map [simp]: "nrows (np_map f g) = nrows g"
  by (simp add: nrows_def np_map_def)

lemma ncols_np_map [simp]: "ncols (np_map f g) = ncols g"
  by (cases g) (simp_all add: ncols_def np_map_def)

lemma ground_range_same_shape:
  assumes "nrows x0 = nrows y0" "ncols x0 = ncols y0"
  shows "ground_range (x0 # xs) (y0 # ys) =
    Inr (np_map fl_sqrt (tabulate2 (nrows x0) (ncols x0) (\<lambda>i j. fl_add (bget (np_map fl_square x0) i j)
       (bget (np_map fl_square y0) i j))))"
  using assms by (simp add: ground_range_def py_get_def np_binop_same_shape)

lemma prepare_sorted:
  assumes "radar_band inp = ''C'' \<or> radar_band inp = ''S''"
    and "levels inp = Some (l # ls)"
    and "sorted (elevation_dataset inp)"
    and "length (reflectivity_dataset inp) = length (elevation_dataset inp)"
    and "length (azimuth_dataset inp) = length (elevation_dataset inp)"
    and "length (range_dataset inp) = length (elevation_dataset inp)"
    and "10 \<le> length (elevation_dataset inp)"
  shows "prepare inp = Inr (fold min ls l, fold max ls l,
     \<lparr>sw_reflectivity = reflectivity_dataset inp, sw_elevation = elevation_dataset inp,
      sw_azimuth = azimuth_dataset inp, sw_range = range_dataset inp\<rparr>)"
proof -
  let ?n = "length (elevation_dataset inp)"
  have a: "argsort (elevation_dataset inp) = [0..<?n]"
    using assms(3) by (rule argsort_sorted)
  have m: "map (\<lambda>i. xs ! i) [0..<?n] = xs" if "length xs = ?n" for xs :: "'a list"
    using map_nth [of xs] that by simp
  have s: "sort_by_fixed_angle (reflectivity_dataset inp) (elevation_dataset inp)
      (azimuth_dataset inp) (range_dataset inp) =
     Inr \<lparr>sw_reflectivity = reflectivity_dataset inp, sw_elevation = elevation_dataset inp,
      sw_azimuth = azimuth_dataset inp, sw_range = range_dataset inp\<rparr>"
    using assms(4-6) by (simp add: sort_by_fixed_angle_ok a m)
  show ?thesis
    using assms(1,2,7) by (auto simp: prepare_def np_min_def np_max_def s require_sweeps_def)
qed

lemma main_index_error:
  assumes "prepare inp = Inr (ml, nl, sw)"
    and "py_get (sw_range sw) 0 = Inr rg" "py_get (sw_azimuth sw) 0 = Inr az"
    and "py_get (sw_elevation sw) 0 = Inr el" "cartesian a2c rg az el = Inr (x, y, z)"
    and "nrows x = nrows y" "ncols x = ncols y"
    and "\<not> (radar_band inp = ''C'' \<and> correct_cband_refl inp)"
  shows "main a2c safe_log inp h = (Inl IndexError, h)"
proof -
  have n: "10 \<le> length (sw_elevation sw)" using assms(1) by (rule prepare_ten)
  then have u: "[0..<length (sw_elevation sw)] = 0 # [Suc 0..<length (sw_elevation sw)]"
    by (intro upt_conv_Cons) auto
  have g: "ground_range (x_dataset (init_state (sw_reflectivity sw)) @ [x])
      (y_dataset (init_state (sw_reflectivity sw)) @ [y]) = Inr
      (np_map fl_sqrt (tabulate2 (nrows x) (ncols x) (\<lambda>i j. fl_add (bget (np_map fl_square x) i j)
       (bget (np_map fl_square y) i j))))"
    using assms(6,7) by (simp add: init_state_def ground_range_same_shape)
  have "sweep_step a2c inp sw ml nl (length (sw_elevation sw)) (init_state (sw_reflectivity sw)) h 0
      = (Inl IndexError, h)"
    using assms(8) by (subst sweep_step_index_error [OF assms(2-5) g]) (auto simp: cband_correction_def)
  then show ?thesis
    using assms(1) by (simp add: main_def u)
qed

text \<open>
  C4.  The claim: \<^verbatim>\<open>dz\<close> of sweep \<open>i\<close> is the forward difference of the height
  fields at the lowest sweep, the backward difference at the topmost and half the
  centred difference in between.  The code attempts this on the wrong array: \<^verbatim>\<open>z\<close> in
  lines 118-122 is the two-dimensional height array of the current sweep alone, not the
  list of the sweeps' arrays, and \<^verbatim>\<open>z[i + 1, :, :]\<close> raises \<^verbatim>\<open>IndexError\<close>.  So the
  step raises for every array, index and sweep count, and with it the call on ten
  sweeps.
\<close>

theorem dz_never_computed:
  "dz_step z i n_ppi prev = Inl IndexError \<and>
   main a2c_stub safe_log_stub ten_sweeps ten_sweeps_heap = (Inl IndexError, ten_sweeps_heap)"
proof
  show "dz_step z i n_ppi prev = Inl IndexError"
    by (rule dz_step_index_error)
  show "main a2c_stub safe_log_stub ten_sweeps ten_sweeps_heap = (Inl IndexError, ten_sweeps_heap)"
  proof (rule main_index_error)
    show "prepare ten_sweeps = Inr (fold min [5000] 3000, fold max [5000] 3000,
       \<lparr>sw_reflectivity = reflectivity_dataset ten_sweeps,
        sw_elevation = elevation_dataset ten_sweeps,
        sw_azimuth = azimuth_dataset ten_sweeps, sw_range = range_dataset ten_sweeps\<rparr>)"
      by (rule prepare_sorted) (simp_all add: ten_sweeps_def)
    show "cartesian a2c_stub [Fin 1000, Fin 2000] [Fin 0, Fin 90] 0.5 =
      Inr ([[Fin 1000, Fin 2000], [Fin 1000, Fin 2000]], [[Fin 0, Fin 0], [Fin 90, Fin 90]],
           [[Fin 0.5, Fin 0.5], [Fin 0.5, Fin 0.5]])"
      by (simp add: cartesian_def a2c_stub_def meshgrid_def Let_def)
  qed (simp_all add: ten_sweeps_def py_get_def nrows_def ncols_def)
qed

subsection \<open>The column integration\<close>

text \<open>
  C1.  The claim: after all sweeps are visited, a cell of the SHI grid is 0.1 times its
  sum of valid SHI elements when that sum is positive, and not-a-number otherwise.  The
  code attempts this and misses: the loop of line 159 iterates over
  \<^verbatim>\<open>range(azimuth_dataset[0])\<close>, \<^verbatim>\<open>range\<close> of an array, which raises
  \<^verbatim>\<open>TypeError\<close> before any cell is visited; and line 184 would store \<^verbatim>\<open>0.1 * shi\<close>,
  the grid, not \<^verbatim>\<open>0.1 * shi_value\<close>.  Whatever the sweeps are, the step returns no
  grid.
\<close>

theorem column_integrate_raises:
  "column_integrate (a0 # az) (r0 # rg) = Inl TypeError"
  by (simp add: column_integrate_def py_get_def py_range_ndarray_def)

subsection \<open>What the result depends on\<close>

lemma sweep_step_fields:
  assumes "radar_altitude inp' = radar_altitude inp" "radar_band inp' = radar_band inp"
    "correct_cband_refl inp' = correct_cband_refl inp" "min_range inp' = min_range inp"
    "max_range inp' = max_range inp"
  shows "sweep_step a2c inp' sw ml nl n st h i = sweep_step a2c inp sw ml nl n st h i"
  unfolding sweep_step_def assms ..

lemma sweep_loop_fields:
  assumes "radar_altitude inp' = radar_altitude inp" "radar_band inp' = radar_band inp"
    "correct_cband_refl inp' = correct_cband_refl inp" "min_range inp' = min_range inp"
    "max_range inp' = max_range inp"
  shows "sweep_loop a2c inp' sw ml nl n js st h = sweep_loop a2c inp sw ml nl n js st h"
proof (induction js arbitrary: st h)
  case Nil
  show ?case by simp
next
  case (Cons i js)
  show ?case
    unfolding sweep_loop.simps sweep_step_fields [OF assms] Cons.IH ..
qed



lemma prepare_levels_swap:
  "prepare (inp\<lparr>levels := Some [a, b]\<rparr>) = prepare (inp\<lparr>levels := Some [b, a]\<rparr>)"
  by (simp add: prepare_def np_min_def np_max_def min.commute max.commute)

lemma bind_err_eq_Inr: "bind_err m f = Inr r \<longleftrightarrow> (\<exists>v. m = Inr v \<and> f v = Inr r)"
  by (cases m) simp_all

lemma prepare_levels_pair:
  assumes "prepare (inp\<lparr>levels := Some [a, b]\<rparr>) = Inr (meltlayer, neg20layer, sw)"
  shows "meltlayer = min a b \<and> neg20layer = max a b"
proof -
  from assms have "bind_err (np_min [a, b]) (\<lambda>ml. bind_err (np_max [a, b]) (\<lambda>nl.
      bind_err (sort_by_fixed_angle (reflectivity_dataset inp) (elevation_dataset inp)
         (azimuth_dataset inp) (range_dataset inp)) (\<lambda>sw.
      bind_err (require_sweeps (length (sw_elevation sw))) (\<lambda>_. Inr (ml, nl, sw))))) =
      Inr (meltlayer, neg20layer, sw)"
    by (simp add: prepare_def split: if_splits)
  then show ?thesis
    by (auto simp: bind_err_eq_Inr np_min_def np_max_def min.commute max.commute)
qed

lemma main_fields:
  assumes "prepare inp' = prepare inp"
    and f: "radar_altitude inp' = radar_altitude inp" "radar_band inp' = radar_band inp"
    "correct_cband_refl inp' = correct_cband_refl inp" "min_range inp' = min_range inp"
    "max_range inp' = max_range inp"
    and "mesh_method inp' = mesh_method inp"
  shows "main a2c safe_log inp' h = main a2c safe_log inp h"
proof (cases "prepare inp")
  case (Inl e)
  then show ?thesis by (simp add: main_def assms(1))
next
  case (Inr r)
  obtain ml nl sw where r: "r = (ml, nl, sw)" by (cases r) auto
  show ?thesis
    by (simp add: main_def assms(1) Inr r Let_def sweep_loop_fields [OF f] assms(7)
        split: prod.splits sum.splits)
qed

subsection \<open>The MESH method\<close>





subsection \<open>The level pair\<close>

text \<open>
  C6.  For a level list of two elements, \<^verbatim>\<open>meltlayer\<close> is the smaller and
  \<^verbatim>\<open>neg20layer\<close> the larger whichever comes first, and the call gives the same result
  (output or exception, and store) for both orders.
\<close>

theorem levels_order_irrelevant:
  "np_min [a, b] = Inr (min a b) \<and> np_max [a, b] = Inr (max a b) \<and>
   np_min [b, a] = Inr (min a b) \<and> np_max [b, a] = Inr (max a b) \<and>
   (prepare (inp\<lparr>levels := Some [a, b]\<rparr>) = Inr (meltlayer, neg20layer, sw) \<longrightarrow>
      meltlayer = min a b \<and> neg20layer = max a b) \<and>
   main a2c safe_log (inp\<lparr>levels := Some [a, b]\<rparr>) h =
     main a2c safe_log (inp\<lparr>levels := Some [b, a]\<rparr>) h"
proof -
  have m: "main a2c safe_log (inp\<lparr>levels := Some [a, b]\<rparr>) h =
     main a2c safe_log (inp\<lparr>levels := Some [b, a]\<rparr>) h"
    by (rule main_fields) (simp_all add: prepare_levels_swap [where inp = inp and a = a and b = b])
  have n: "np_min [a, b] = Inr (min a b)" "np_max [a, b] = Inr (max a b)"
     "np_min [b, a] = Inr (min a b)" "np_max [b, a] = Inr (max a b)"
    by (simp_all add: np_min_def np_max_def min.commute max.commute)
  show ?thesis using m n prepare_levels_pair [where inp = inp and a = a and b = b and meltlayer = meltlayer
      and neg20layer = neg20layer and sw = sw] by blast
qed

theorem levels_order_irrelevant_witness:
  "np_min [5000, 3000] = Inr 3000 \<and> np_max [5000, 3000] = Inr 5000 \<and>
   np_min [3000, 5000] = Inr 3000 \<and> np_max [3000, 5000] = Inr 5000 \<and>
   prepare (ten_sweeps\<lparr>levels := Some [5000, 3000]\<rparr>) = Inr (3000, 5000,
       \<lparr>sw_reflectivity = reflectivity_dataset ten_sweeps,
        sw_elevation = elevation_dataset ten_sweeps,
        sw_azimuth = azimuth_dataset ten_sweeps, sw_range = range_dataset ten_sweeps\<rparr>) \<and>
   main a2c_stub safe_log_stub (ten_sweeps\<lparr>levels := Some [5000, 3000]\<rparr>) ten_sweeps_heap =
     main a2c_stub safe_log_stub (ten_sweeps\<lparr>levels := Some [3000, 5000]\<rparr>) ten_sweeps_heap"
proof -
  have p: "prepare (ten_sweeps\<lparr>levels := Some [5000, 3000]\<rparr>) = Inr (fold min [3000] 5000, fold max [3000] 5000,
       \<lparr>sw_reflectivity = reflectivity_dataset (ten_sweeps\<lparr>levels := Some [5000, 3000]\<rparr>),
        sw_elevation = elevation_dataset (ten_sweeps\<lparr>levels := Some [5000, 3000]\<rparr>),
        sw_azimuth = azimuth_dataset (ten_sweeps\<lparr>levels := Some [5000, 3000]\<rparr>),
        sw_range = range_dataset (ten_sweeps\<lparr>levels := Some [5000, 3000]\<rparr>)\<rparr>)"
    by (rule prepare_sorted) (simp_all add: ten_sweeps_def)
  show ?thesis
    using levels_order_irrelevant [where a = 5000 and b = 3000 and inp = ten_sweeps
        and a2c = a2c_stub and safe_log = safe_log_stub and h = ten_sweeps_heap
        and meltlayer = 3000 and neg20layer = 5000] p
    by simp
qed


subsection \<open>MESH\<close>



lemma mesh_cell_mono:
  assumes "0 < c" "0 < p" "0 \<le> s" "s < t"
  shows "c * s powr p < c * t powr (p::real)"
  using assms by (simp add: powr_less_mono2)




subsection \<open>POSH\<close>







subsection \<open>The validity mask\<close>

lemma nrows_tabulate2 [simp]: "nrows (tabulate2 R C h) = R"
  by (simp add: nrows_def tabulate2_def)













subsection \<open>The caller's reflectivity arrays\<close>



subsection \<open>The sort by fixed angle\<close>







lemma length_reordered [simp]: "length (reordered xs p) = length p"
  by (simp add: reordered_def)







end
